theory Spec2Isabelle
  imports Complex_Main "HOL-Library.AList" "HOL-Library.Multiset"
begin

section \<open>Data model of \<open>rotkelchen/rotkelchen.py\<close>\<close>

text \<open>
  The exceptions the modelled code can raise. \<open>ZeroDivisionError\<close> stands for the
  signal Python's decimal arithmetic raises when it divides by zero.
\<close>

datatype error = AttributeError | KeyError | TypeError | ZeroDivisionError

text \<open>
  Modelled from the spec: \<open>FVal\<close> (\<open>rotkelchen/fval.py\<close>, not part of the sources at hand).
  The spec calls amounts and values \<open>decimal\<close>; they are taken as exact rationals.
  Section 4.4 and section 7 of the spec treat a division by a zero \<open>net_usd\<close> as an
  unguarded failure, so \<open>/\<close> on \<open>FVal\<close> raises on a zero divisor.
\<close>

type_synonym FVal = rat

definition fval_truediv :: "FVal \<Rightarrow> FVal \<Rightarrow> error + FVal" where
  "fval_truediv a b = (if b = 0 then Inl ZeroDivisionError else Inr (a / b))"

text \<open>
  A balance entry \<open>{'amount': .., 'usd_value': ..}\<close> and a dictionary from asset symbol
  to entry. Dictionaries are association lists in insertion order; assignment
  \<open>d[k] = v\<close> is \<^const>\<open>AList.update\<close> (replace in place, else append). The key
  \<open>'usd_value'\<close> is shared by balance entries and location entries, hence the base
  record.
\<close>

type_synonym asset = string

record valued =
  usd_value :: FVal

record balance = valued +
  amount :: FVal

type_synonym stat_dict = "(asset \<times> balance) list"

text \<open>
  A value handed over by the tax-accounting collaborator. The code never checks its
  type. \<open>Number r\<close> is an \<open>FVal\<close>; \<open>NotNumber e\<close> is any other object, and \<open>e\<close> is the
  exception that comparing it with, or subtracting it from, an \<open>FVal\<close> raises (the
  operators of \<open>FVal\<close> are not part of the sources at hand).
\<close>

datatype operand = Number FVal | NotNumber error

text \<open>What line 227 or line 231 stores under \<open>'percent_change'\<close>: a number or a string.\<close>

datatype change = Change FVal | Text string

text \<open>
  An exchange client, as far as this file uses it: what \<open>validate_api_key()\<close> and
  \<open>query_balances()\<close> answer.
\<close>

record client =
  validate_api_key :: "bool \<times> string"
  client_balances :: stat_dict

text \<open>
  The attributes of a \<open>Rotkelchen\<close> object that the modelled methods read or write,
  with the secret file on disk (\<open>None\<close>: \<open>os.path.isfile\<close> is false; \<open>Some d\<close>: the
  object last written to it) and the answers of the collaborators held by the
  object: \<open>self.blockchain.query_balances()['totals']\<close>,
  \<open>self.data.personal['fiat']\<close> and \<open>self.data.accountant.details\<close>
  (\<open>None\<close>: the accountant has no attribute \<open>details\<close> yet).
\<close>

record rotkelchen =
  sleep_secs :: nat
  secret_data :: "(string \<times> string) list"
  secret_file :: "(string \<times> string) list option"
  connected_exchanges :: "string list"
  poloniex :: "client option"
  kraken :: "client option"
  bittrex :: "client option"
  binance :: "client option"
  blockchain_totals :: stat_dict
  personal_fiat :: "(string \<times> FVal) list"
  accountant_details :: "(asset \<times> operand \<times> operand) list option"

text \<open>
  What the module imports and this file does not define, taken as parameters:
  the constructors of the four exchange clients (key and secret given), the
  constant \<open>FIAT_CURRENCIES\<close>, \<open>query_fiat_pair\<close> and \<open>FVal.to_percentage\<close>.
\<close>

record 'p world =
  Kraken :: "string \<Rightarrow> string \<Rightarrow> client"
  Poloniex :: "string \<Rightarrow> string \<Rightarrow> client"
  Bittrex :: "string \<Rightarrow> string \<Rightarrow> client"
  Binance :: "string \<Rightarrow> string \<Rightarrow> client"
  FIAT_CURRENCIES :: "string list"
  query_fiat_pair :: "string \<Rightarrow> string \<Rightarrow> FVal"
  to_percentage :: "FVal \<Rightarrow> 'p"

section \<open>\<open>setup_exchange\<close> (lines 260 to 314)\<close>

text \<open>The branch on \<open>name\<close> of lines 268 to 297; \<open>None\<close> is the final \<open>else\<close>.\<close>

definition new_exchange :: "'p world \<Rightarrow> string \<Rightarrow> string \<Rightarrow> string \<Rightarrow> client option" where
  "new_exchange w name api_key api_secret =
     (if name = ''kraken'' then Some (Kraken w api_key api_secret)
      else if name = ''poloniex'' then Some (Poloniex w api_key api_secret)
      else if name = ''bittrex'' then Some (Bittrex w api_key api_secret)
      else if name = ''binance'' then Some (Binance w api_key api_secret)
      else None)"

text \<open>\<open>setattr(self, name, exchange)\<close> of line 305, reached with one of the four names only.\<close>

definition setattr_exchange :: "string \<Rightarrow> client \<Rightarrow> rotkelchen \<Rightarrow> rotkelchen" where
  "setattr_exchange name exchange st =
     (if name = ''kraken'' then st\<lparr>kraken := Some exchange\<rparr>
      else if name = ''poloniex'' then st\<lparr>poloniex := Some exchange\<rparr>
      else if name = ''bittrex'' then st\<lparr>bittrex := Some exchange\<rparr>
      else if name = ''binance'' then st\<lparr>binance := Some exchange\<rparr>
      else st)"

definition setup_exchange ::
  "'p world \<Rightarrow> rotkelchen \<Rightarrow> string \<Rightarrow> string \<Rightarrow> string \<Rightarrow> (bool \<times> string) \<times> rotkelchen" where
  "setup_exchange w st name api_key api_secret =
     (if name @ ''_api_key'' \<in> set (map fst (secret_data st))
      then ((False, ''Exchange {} is already registered''), st)
      else if secret_file st = None
      then ((False, ''The secret file can not be found''), st)
      else case new_exchange w name api_key api_secret of
        None \<Rightarrow> ((False, ''Attempted to register unsupported exchange '' @ name), st)
      | Some exchange \<Rightarrow>
          (case validate_api_key exchange of (result, message) \<Rightarrow>
             if \<not> result then ((False, message), st)
             else
               let secrets = AList.update (name @ ''_secret'') api_secret
                               (AList.update (name @ ''_api_key'') api_key (secret_data st))
               in ((True, []),
                   (setattr_exchange name exchange st)
                     \<lparr>secret_data := secrets,
                      secret_file := Some secrets,
                      connected_exchanges := connected_exchanges st @ [name]\<rparr>)))"

section \<open>\<open>query_balances\<close> (lines 164 to 236)\<close>

text \<open>
  The snapshot. An asset entry is a balance entry that line 207 and the overlay
  (lines 222 to 231) give further keys; a key not yet set is \<open>None\<close>. A location entry
  is what lines 201 to 204 build.
\<close>

record 'p asset_entry = balance +
  percentage_of_net_value :: 'p
  tax_free_amount :: "operand option"
  average_buy_value :: "operand option"
  percent_change :: "change option"

record 'p location_entry = valued +
  location_percentage_of_net_value :: 'p

record 'p stats =
  location :: "(string \<times> 'p location_entry) list"
  net_usd :: FVal

record 'p snapshot = "'p stats" +
  combined :: "(asset \<times> 'p asset_entry) list"

text \<open>
  Modelled from the spec: \<open>combine_stat_dicts\<close> (\<open>rotkelchen/utils.py\<close>, not part of the
  sources at hand). Section 4.3: for every asset symbol that appears in at least one
  source, sum amount and usd_value across all sources containing that asset, one
  entry per asset; an empty source list or an empty source contributes nothing.
\<close>

definition combine_stat_dicts :: "stat_dict list \<Rightarrow> stat_dict" where
  "combine_stat_dicts list_of_dicts =
     (let entries = concat list_of_dicts
      in map (\<lambda>a. (a, \<lparr>usd_value = sum_list [usd_value b. (k, b) \<leftarrow> entries, k = a],
                          amount = sum_list [amount b. (k, b) \<leftarrow> entries, k = a]\<rparr>))
           (remdups (map fst entries)))"

text \<open>
  Modelled from the spec: \<open>dict_get_sumof\<close> (\<open>rotkelchen/utils.py\<close>). Section 4.4: the
  total of a source is the sum of usd_value of that source's own assets. The key
  summed is the second argument, as in the call of line 186.
\<close>

definition dict_get_sumof :: "(string \<times> 'e) list \<Rightarrow> ('e \<Rightarrow> FVal) \<Rightarrow> FVal" where
  "dict_get_sumof d attribute = sum_list (map (\<lambda>(key, val). attribute val) d)"

text \<open>
  Modelled from the spec: \<open>merge_dicts\<close> (\<open>rotkelchen/utils.py\<close>). Section 3 and section
  4.4: the snapshot holds the combined assets, each with its percentage, the
  location breakdown and \<open>net_usd\<close>, as three parts. What becomes of an asset whose
  symbol is \<open>location\<close> or \<open>net_usd\<close> is not said there; the parts are kept apart.
\<close>

definition merge_dicts :: "(asset \<times> 'p asset_entry) list \<Rightarrow> 'p stats \<Rightarrow> 'p snapshot" where
  "merge_dicts combined_entries st =
     \<lparr>location = location st, net_usd = net_usd st, combined = combined_entries\<rparr>"

text \<open>Lines 164 to 175.\<close>

definition query_fiat_balances :: "'p world \<Rightarrow> rotkelchen \<Rightarrow> stat_dict" where
  "query_fiat_balances w st =
     foldl (\<lambda>result currency.
              case map_of (personal_fiat st) currency of
                None \<Rightarrow> result
              | Some a \<Rightarrow>
                  AList.update currency
                    \<lparr>usd_value = a * query_fiat_pair w currency ''USD'', amount = a\<rparr> result)
       [] (FIAT_CURRENCIES w)"

text \<open>
  \<open>getattr(self, exchange)\<close> of line 180. The list of connected exchanges only ever
  receives the four names (lines 95 to 125 and 306). A handle that is \<open>None\<close> has no
  \<open>query_balances\<close>: the call raises \<open>AttributeError\<close>, outside the \<open>try\<close> of line 216.
\<close>

definition getattr_exchange :: "rotkelchen \<Rightarrow> string \<Rightarrow> client option" where
  "getattr_exchange st exchange =
     (if exchange = ''poloniex'' then poloniex st
      else if exchange = ''kraken'' then kraken st
      else if exchange = ''bittrex'' then bittrex st
      else if exchange = ''binance'' then binance st
      else None)"

text \<open>Lines 179 and 180: the loop over the connected exchanges.\<close>

fun exchange_loop ::
  "rotkelchen \<Rightarrow> string list \<Rightarrow> (string \<times> stat_dict) list \<Rightarrow> error + (string \<times> stat_dict) list" where
  "exchange_loop st [] balances = Inr balances"
| "exchange_loop st (exchange # rest) balances =
     (case getattr_exchange st exchange of
        None \<Rightarrow> Inl AttributeError
      | Some c \<Rightarrow> exchange_loop st rest (AList.update exchange (client_balances c) balances))"

text \<open>Lines 178 to 183: the dictionary \<open>balances\<close>, one entry per source.\<close>

definition source_balances ::
  "'p world \<Rightarrow> rotkelchen \<Rightarrow> error + (string \<times> stat_dict) list" where
  "source_balances w st =
     (case exchange_loop st (connected_exchanges st) [] of
        Inl e \<Rightarrow> Inl e
      | Inr balances \<Rightarrow>
          Inr (AList.update ''banks'' (query_fiat_balances w st)
                (AList.update ''blockchain'' (blockchain_totals st) balances)))"

text \<open>Lines 198 to 204: the loop that fills \<open>stats['location']\<close>.\<close>

fun location_loop ::
  "'p world \<Rightarrow> FVal \<Rightarrow> (string \<times> FVal) list \<Rightarrow> (string \<times> 'p location_entry) list \<Rightarrow>
     error + (string \<times> 'p location_entry) list" where
  "location_loop w net [] loc = Inr loc"
| "location_loop w net ((name, total_usd) # rest) loc =
     (case fval_truediv total_usd net of
        Inl e \<Rightarrow> Inl e
      | Inr q \<Rightarrow>
          location_loop w net rest
            (AList.update name
               \<lparr>usd_value = total_usd, location_percentage_of_net_value = to_percentage w q\<rparr> loc))"

text \<open>Lines 206 and 207: every combined entry gets its percentage.\<close>

fun percentage_loop ::
  "'p world \<Rightarrow> FVal \<Rightarrow> stat_dict \<Rightarrow> error + (asset \<times> 'p asset_entry) list" where
  "percentage_loop w net [] = Inr []"
| "percentage_loop w net ((k, v) # rest) =
     (case fval_truediv (usd_value v) net of
        Inl e \<Rightarrow> Inl e
      | Inr q \<Rightarrow>
          (case percentage_loop w net rest of
             Inl e \<Rightarrow> Inl e
           | Inr entries \<Rightarrow>
               Inr ((k, \<lparr>usd_value = usd_value v, amount = amount v,
                         percentage_of_net_value = to_percentage w q,
                         tax_free_amount = None, average_buy_value = None,
                         percent_change = None\<rparr>) # entries)))"

text \<open>
  Lines 219 to 231: the body of the overlay loop for one item of \<open>details\<close>. It changes
  \<open>result_dict\<close> in place, so the dictionary reached when an exception is raised is
  returned with the exception. The keys \<open>'net_usd'\<close> and \<open>'location'\<close> of \<open>result_dict\<close>
  hold no asset entry: line 222 cannot assign into the number, and line 225 finds no
  \<open>'usd_value'\<close> in the location breakdown; both exceptions leave \<open>query_balances\<close>, so
  the dictionary they leave behind is not seen. For a value that is not a number,
  line 226 or line 228 raises its exception, after lines 222 to 225.
\<close>

definition overlay_entry ::
  "asset \<Rightarrow> operand \<Rightarrow> operand \<Rightarrow> 'p snapshot \<Rightarrow> error option \<times> 'p snapshot" where
  "overlay_entry asset tfa abv result_dict =
     (if asset = ''net_usd'' then (Some TypeError, result_dict)
      else if asset = ''location'' then (Some KeyError, result_dict)
      else case map_of (combined result_dict) asset of
        None \<Rightarrow> (None, result_dict)
      | Some entry \<Rightarrow>
          let entry1 = entry\<lparr>tax_free_amount := Some tfa, average_buy_value := Some abv\<rparr>;
              dict1 = result_dict\<lparr>combined := AList.update asset entry1 (combined result_dict)\<rparr>
          in case fval_truediv (usd_value entry1) (amount entry1) of
               Inl e \<Rightarrow> (Some e, dict1)
             | Inr current_price \<Rightarrow>
                 (case abv of
                    NotNumber e \<Rightarrow> (Some e, dict1)
                  | Number average \<Rightarrow>
                      if average \<noteq> 0
                      then (case fval_truediv (current_price - average) average of
                              Inl e \<Rightarrow> (Some e, dict1)
                            | Inr q \<Rightarrow>
                                (None, dict1\<lparr>combined :=
                                   AList.update asset (entry1\<lparr>percent_change := Some (Change (q * 100))\<rparr>)
                                     (combined dict1)\<rparr>))
                      else (None, dict1\<lparr>combined :=
                              AList.update asset (entry1\<lparr>percent_change := Some (Text ''INF'')\<rparr>)
                                (combined dict1)\<rparr>)))"

text \<open>Line 218: the loop over \<open>details.items()\<close>, stopped by the first exception.\<close>

fun tax_overlay ::
  "(asset \<times> operand \<times> operand) list \<Rightarrow> 'p snapshot \<Rightarrow> error option \<times> 'p snapshot" where
  "tax_overlay [] result_dict = (None, result_dict)"
| "tax_overlay ((asset, tfa, abv) # rest) result_dict =
     (case overlay_entry asset tfa abv result_dict of
        (None, dict1) \<Rightarrow> tax_overlay rest dict1
      | (Some e, dict1) \<Rightarrow> (Some e, dict1))"

text \<open>
  Lines 185 to 209: the snapshot before the overlay. The hand-over of line 212 to
  \<open>save_balances_data\<close> does not change what is returned and is left out.
\<close>

definition valuation :: "'p world \<Rightarrow> rotkelchen \<Rightarrow> error + 'p snapshot" where
  "valuation w st =
     (case source_balances w st of
        Inl e \<Rightarrow> Inl e
      | Inr balances \<Rightarrow>
          let combined_totals = combine_stat_dicts (map snd balances);
              total_usd_per_location = map (\<lambda>(k, v). (k, dict_get_sumof v usd_value)) balances;
              net = foldl (\<lambda>s (k, v). s + usd_value v) 0 combined_totals
          in case location_loop w net total_usd_per_location [] of
               Inl e \<Rightarrow> Inl e
             | Inr loc \<Rightarrow>
                 (case percentage_loop w net combined_totals of
                    Inl e \<Rightarrow> Inl e
                  | Inr entries \<Rightarrow> Inr (merge_dicts entries \<lparr>location = loc, net_usd = net\<rparr>)))"

text \<open>
  Lines 217 to 231, the body of the \<open>try\<close>: the read of \<open>details\<close> raises
  \<open>AttributeError\<close> when the accountant has no such attribute, before any item is
  looked at.
\<close>

definition try_overlay ::
  "(asset \<times> operand \<times> operand) list option \<Rightarrow> 'p snapshot \<Rightarrow> error option \<times> 'p snapshot" where
  "try_overlay details_attribute result_dict =
     (case details_attribute of
        None \<Rightarrow> (Some AttributeError, result_dict)
      | Some details \<Rightarrow> tax_overlay details result_dict)"

text \<open>
  Lines 177 to 236. \<open>except AttributeError: pass\<close> returns \<open>result_dict\<close> as the body
  of the \<open>try\<close> left it; any other exception leaves the method.
\<close>

definition query_balances :: "'p world \<Rightarrow> rotkelchen \<Rightarrow> error + 'p snapshot" where
  "query_balances w st =
     (case valuation w st of
        Inl e \<Rightarrow> Inl e
      | Inr result_dict \<Rightarrow>
          (case try_overlay (accountant_details st) result_dict of
             (None, dict1) \<Rightarrow> Inr dict1
           | (Some e, dict1) \<Rightarrow> if e = AttributeError then Inr dict1 else Inl e))"

text \<open>
  An asset entry carries the overlay of the item \<open>(tax_free_amount, average_buy_value)\<close>:
  both values are stored and \<open>'percent_change'\<close> is what lines 225 to 231 compute from
  the entry.
\<close>

definition annotated :: "operand \<Rightarrow> operand \<Rightarrow> 'p asset_entry \<Rightarrow> bool" where
  "annotated tfa abv entry =
     (tax_free_amount entry = Some tfa \<and> average_buy_value entry = Some abv \<and>
      (case abv of
         NotNumber e \<Rightarrow> False
       | Number average \<Rightarrow>
           percent_change entry =
             Some (if average = 0 then Text ''INF''
                   else Change (((usd_value entry / amount entry - average) / average) * 100))))"

section \<open>\<open>main_loop\<close> (lines 150 to 159)\<close>

text \<open>
  What one pass of the loop body does, as the list of calls it makes to the
  collaborators: \<open>main_logic()\<close> of a client, and \<open>gevent.sleep\<close> with its argument.
\<close>

datatype event = Main_logic string | Sleep nat

definition main_loop_cycle :: "rotkelchen \<Rightarrow> event list" where
  "main_loop_cycle st =
     (if poloniex st \<noteq> None then [Main_logic ''poloniex''] else []) @
     (if kraken st \<noteq> None then [Main_logic ''kraken''] else []) @
     [Sleep 10]"

text \<open>
  The loop, run against the answers \<open>shutdown_event.is_set()\<close> gives at the top of
  successive passes.
\<close>

fun main_loop :: "bool list \<Rightarrow> rotkelchen \<Rightarrow> event list" where
  "main_loop [] st = []"
| "main_loop (is_set # later) st =
     (if is_set then [] else main_loop_cycle st @ main_loop later st)"

section \<open>Worked inputs\<close>

text \<open>
  A client whose key is accepted when it is \<open>''k1''\<close>, holding one bitcoin worth 10000
  USD, and collaborators around it: every fiat rate is 1 and a ratio is shown as that
  many hundredths.
\<close>

definition demo_client :: "string \<Rightarrow> string \<Rightarrow> client" where
  "demo_client api_key api_secret =
     \<lparr>validate_api_key = (if api_key = ''k1'' then (True, []) else (False, ''Invalid API key'')),
      client_balances = [(''BTC'', \<lparr>usd_value = 10000, amount = 1\<rparr>)]\<rparr>"

definition demo_world :: "rat world" where
  "demo_world =
     \<lparr>Kraken = demo_client, Poloniex = demo_client, Bittrex = demo_client, Binance = demo_client,
      FIAT_CURRENCIES = [''EUR'', ''USD''],
      query_fiat_pair = (\<lambda>base quote. 1),
      to_percentage = (\<lambda>ratio. ratio * 100)\<rparr>"

text \<open>An object right after start with no secret file: nothing connected, nothing held.\<close>

definition fresh :: rotkelchen where
  "fresh =
     \<lparr>sleep_secs = 20, secret_data = [], secret_file = None, connected_exchanges = [],
      poloniex = None, kraken = None, bittrex = None, binance = None,
      blockchain_totals = [], personal_fiat = [], accountant_details = None\<rparr>"

text \<open>The same object with an empty secret file in place.\<close>

definition installed :: rotkelchen where
  "installed = fresh\<lparr>secret_file := Some []\<rparr>"

text \<open>
  The example of section 8 of the spec: kraken holds one bitcoin worth 10000 USD, the
  bank holds 500 USD, and the accountant reports an average buy value of 8000 for
  bitcoin.
\<close>

definition portfolio :: rotkelchen where
  "portfolio =
     \<lparr>sleep_secs = 20,
      secret_data = [(''kraken_api_key'', ''k1''), (''kraken_secret'', ''s1'')],
      secret_file = Some [(''kraken_api_key'', ''k1''), (''kraken_secret'', ''s1'')],
      connected_exchanges = [''kraken''],
      poloniex = None, kraken = Some (demo_client ''k1'' ''s1''), bittrex = None, binance = None,
      blockchain_totals = [], personal_fiat = [(''USD'', 500)],
      accountant_details = Some [(''BTC'', Number 1, Number 8000)]\<rparr>"

text \<open>What \<open>query_balances\<close> returns for it.\<close>

definition portfolio_snapshot :: "rat snapshot" where
  "portfolio_snapshot =
     \<lparr>location =
        [(''kraken'', \<lparr>usd_value = 10000, location_percentage_of_net_value = 2000 / 21\<rparr>),
         (''blockchain'', \<lparr>usd_value = 0, location_percentage_of_net_value = 0\<rparr>),
         (''banks'', \<lparr>usd_value = 500, location_percentage_of_net_value = 100 / 21\<rparr>)],
      net_usd = 10500,
      combined =
        [(''BTC'', \<lparr>usd_value = 10000, amount = 1, percentage_of_net_value = 2000 / 21,
                    tax_free_amount = Some (Number 1), average_buy_value = Some (Number 8000),
                    percent_change = Some (Change 25)\<rparr>),
         (''USD'', \<lparr>usd_value = 500, amount = 500, percentage_of_net_value = 100 / 21,
                    tax_free_amount = None, average_buy_value = None, percent_change = None\<rparr>)]\<rparr>"

text \<open>The snapshot of that example as lines 185 to 209 leave it, before the overlay.\<close>

definition portfolio_valuation :: "rat snapshot" where
  "portfolio_valuation =
     portfolio_snapshot\<lparr>combined :=
        [(''BTC'', \<lparr>usd_value = 10000, amount = 1, percentage_of_net_value = 2000 / 21,
                    tax_free_amount = None, average_buy_value = None, percent_change = None\<rparr>),
         (''USD'', \<lparr>usd_value = 500, amount = 500, percentage_of_net_value = 100 / 21,
                    tax_free_amount = None, average_buy_value = None, percent_change = None\<rparr>)]\<rparr>"

text \<open>The same holdings when the accountant reports an average buy value of zero.\<close>

definition gift :: rotkelchen where
  "gift = portfolio\<lparr>accountant_details := Some [(''BTC'', Number 1, Number 0)]\<rparr>"

definition gift_snapshot :: "rat snapshot" where
  "gift_snapshot =
     portfolio_snapshot\<lparr>combined :=
        [(''BTC'', \<lparr>usd_value = 10000, amount = 1, percentage_of_net_value = 2000 / 21,
                    tax_free_amount = Some (Number 1), average_buy_value = Some (Number 0),
                    percent_change = Some (Text ''INF'')\<rparr>),
         (''USD'', \<lparr>usd_value = 500, amount = 500, percentage_of_net_value = 100 / 21,
                    tax_free_amount = None, average_buy_value = None, percent_change = None\<rparr>)]\<rparr>"

text \<open>
  The same holdings when the accountant reports, after bitcoin, a value for \<open>USD\<close> that
  is not a number and on which the arithmetic of lines 226 to 228 raises
  \<open>AttributeError\<close>; a third item follows.
\<close>

definition unpriced :: rotkelchen where
  "unpriced =
     portfolio\<lparr>accountant_details :=
       Some [(''BTC'', Number 1, Number 8000),
             (''USD'', Number 500, NotNumber AttributeError),
             (''ETH'', Number 2, Number 300)]\<rparr>"

definition unpriced_snapshot :: "rat snapshot" where
  "unpriced_snapshot =
     portfolio_snapshot\<lparr>combined :=
        [(''BTC'', \<lparr>usd_value = 10000, amount = 1, percentage_of_net_value = 2000 / 21,
                    tax_free_amount = Some (Number 1), average_buy_value = Some (Number 8000),
                    percent_change = Some (Change 25)\<rparr>),
         (''USD'', \<lparr>usd_value = 500, amount = 500, percentage_of_net_value = 100 / 21,
                    tax_free_amount = Some (Number 500),
                    average_buy_value = Some (NotNumber AttributeError),
                    percent_change = None\<rparr>)]\<rparr>"

text \<open>
  Holdings with an asset of amount zero on the blockchain, for which the accountant has
  an item.
\<close>

definition dust :: rotkelchen where
  "dust =
     portfolio\<lparr>blockchain_totals := [(''DUST'', \<lparr>usd_value = 0, amount = 0\<rparr>)],
               accountant_details := Some [(''DUST'', Number 0, Number 8000)]\<rparr>"

section \<open>Auxiliary facts\<close>

subsection \<open>Sums over dictionaries\<close>

lemma comp_list: "[f b. (k, b) \<leftarrow> E, k = a] = map (\<lambda>(k, b). f b) (filter (\<lambda>(k, b). k = a) E)"
  by (induction E) auto

lemma sum_list_absent:
  "k \<notin> set ks \<Longrightarrow> (\<Sum>a\<leftarrow>ks. if k = a then c else (0::rat)) = 0"
  by (induction ks) auto

lemma sum_list_delta:
  "distinct ks \<Longrightarrow> k \<in> set ks \<Longrightarrow> (\<Sum>a\<leftarrow>ks. if k = a then c else (0::rat)) = c"
  by (induction ks) (auto simp: sum_list_absent)

lemma sum_list_grouped:
  "distinct ks \<Longrightarrow> fst ` set E \<subseteq> set ks \<Longrightarrow>
     (\<Sum>a\<leftarrow>ks. sum_list [f b. (k, b) \<leftarrow> E, k = a]) = (\<Sum>(k, b)\<leftarrow>E. (f b :: rat))"
proof (induction E)
  case Nil
  then show ?case by simp
next
  case (Cons p E)
  obtain k0 b0 where p: "p = (k0, b0)" by (cases p)
  have "(\<Sum>a\<leftarrow>ks. sum_list [f b. (k, b) \<leftarrow> p # E, k = a])
      = (\<Sum>a\<leftarrow>ks. (if k0 = a then f b0 else 0) + sum_list [f b. (k, b) \<leftarrow> E, k = a])"
    by (rule arg_cong[where f = sum_list]) (simp add: p)
  also have "\<dots> = (\<Sum>a\<leftarrow>ks. if k0 = a then f b0 else 0) + (\<Sum>a\<leftarrow>ks. sum_list [f b. (k, b) \<leftarrow> E, k = a])"
    by (simp add: sum_list_addf)
  also have "\<dots> = f b0 + (\<Sum>(k, b)\<leftarrow>E. f b)"
    using Cons by (simp add: sum_list_delta p)
  finally show ?case by (simp add: p)
qed

lemma combine_stat_dicts_usd:
  "(\<Sum>(k, v)\<leftarrow>combine_stat_dicts ds. usd_value v) = (\<Sum>d\<leftarrow>ds. dict_get_sumof d usd_value)"
proof -
  have "(\<Sum>(k, v)\<leftarrow>combine_stat_dicts ds. usd_value v)
      = (\<Sum>a\<leftarrow>remdups (map fst (concat ds)). sum_list [usd_value b. (k, b) \<leftarrow> concat ds, k = a])"
    by (simp add: combine_stat_dicts_def Let_def comp_def)
  also have "\<dots> = (\<Sum>(k, b)\<leftarrow>concat ds. usd_value b)"
    by (rule sum_list_grouped) auto
  also have "\<dots> = (\<Sum>d\<leftarrow>ds. dict_get_sumof d usd_value)"
    by (induction ds) (simp_all add: dict_get_sumof_def)
  finally show ?thesis .
qed

lemma foldl_usd:
  "foldl (\<lambda>s (k, v). s + usd_value v) a xs = a + (\<Sum>(k, v)\<leftarrow>xs. usd_value v)"
  by (induction xs arbitrary: a) (auto simp: add.assoc)

subsection \<open>The loops of \<open>query_balances\<close>\<close>

lemma update_fresh: "k \<notin> fst ` set al \<Longrightarrow> AList.update k v al = al @ [(k, v)]"
  by (induction al) auto

lemma location_loop_zero:
  "location_loop w 0 (p # rest) loc = Inl ZeroDivisionError"
  by (cases p) (simp add: fval_truediv_def)

lemma location_loop_nonzero:
  "net \<noteq> 0 \<Longrightarrow> distinct (map fst tots) \<Longrightarrow> fst ` set tots \<inter> fst ` set loc = {} \<Longrightarrow>
     location_loop w net tots loc =
       Inr (loc @ map (\<lambda>(name, total_usd).
              (name, \<lparr>usd_value = total_usd,
                      location_percentage_of_net_value = to_percentage w (total_usd / net)\<rparr>)) tots)"
proof (induction tots arbitrary: loc)
  case Nil
  then show ?case by simp
next
  case (Cons p tots)
  obtain name t where p: "p = (name, t)" by (cases p)
  from Cons.prems have fresh: "name \<notin> fst ` set loc" by (auto simp: p)
  let ?loc = "AList.update name \<lparr>usd_value = t, location_percentage_of_net_value = to_percentage w (t / net)\<rparr> loc"
  have "fst ` set tots \<inter> fst ` set ?loc = {}"
    using Cons.prems by (auto simp: p AList.dom_update)
  with Cons have "location_loop w net tots ?loc = Inr (?loc @ map (\<lambda>(name, total_usd).
              (name, \<lparr>usd_value = total_usd,
                      location_percentage_of_net_value = to_percentage w (total_usd / net)\<rparr>)) tots)"
    by simp
  then show ?case using Cons.prems(1) fresh by (simp add: p fval_truediv_def update_fresh)
qed

lemma percentage_loop_zero:
  "percentage_loop w 0 (p # rest) = Inl ZeroDivisionError"
  by (cases p) (simp add: fval_truediv_def)

lemma percentage_loop_nonzero:
  "net \<noteq> 0 \<Longrightarrow>
     percentage_loop w net xs =
       Inr (map (\<lambda>(k, v). (k, \<lparr>usd_value = usd_value v, amount = amount v,
                         percentage_of_net_value = to_percentage w (usd_value v / net),
                         tax_free_amount = None, average_buy_value = None,
                         percent_change = None\<rparr>)) xs)"
  by (induction xs) (auto simp: fval_truediv_def)

lemma exchange_loop_keys:
  "exchange_loop st exs b = Inr b' \<Longrightarrow> distinct (map fst b) \<Longrightarrow> distinct (map fst b')"
  by (induction exs arbitrary: b) (auto split: option.splits simp: AList.distinct_update)

lemma source_balances_keys:
  assumes "source_balances w st = Inr balances"
  shows "distinct (map fst balances)" and "''blockchain'' \<in> fst ` set balances"
    and "''banks'' \<in> fst ` set balances"
  using assms
  by (auto simp: source_balances_def AList.distinct_update AList.dom_update
      split: sum.splits dest: exchange_loop_keys)

lemma valuation_sources:
  "valuation w st = Inr r \<Longrightarrow> \<exists>balances. source_balances w st = Inr balances"
  by (auto simp: valuation_def split: sum.splits)

lemma valuation_result:
  assumes b: "source_balances w st = Inr balances" and "valuation w st = Inr r"
  shows "net_usd r = (\<Sum>(k, v)\<leftarrow>combine_stat_dicts (map snd balances). usd_value v)"
    and "net_usd r \<noteq> 0"
    and "location r = map (\<lambda>(name, d).
              (name, \<lparr>usd_value = dict_get_sumof d usd_value,
                      location_percentage_of_net_value =
                        to_percentage w (dict_get_sumof d usd_value / net_usd r)\<rparr>)) balances"
    and "combined r = map (\<lambda>(k, v). (k, \<lparr>usd_value = usd_value v, amount = amount v,
                         percentage_of_net_value = to_percentage w (usd_value v / net_usd r),
                         tax_free_amount = None, average_buy_value = None,
                         percent_change = None\<rparr>)) (combine_stat_dicts (map snd balances))"
proof -
  let ?net = "\<Sum>(k, v)\<leftarrow>combine_stat_dicts (map snd balances). usd_value v"
  let ?tots = "map (\<lambda>(k, v). (k, dict_get_sumof v usd_value)) balances"
  have v: "valuation w st =
      (case location_loop w ?net ?tots [] of
         Inl e \<Rightarrow> Inl e
       | Inr loc \<Rightarrow>
           (case percentage_loop w ?net (combine_stat_dicts (map snd balances)) of
              Inl e \<Rightarrow> Inl e
            | Inr entries \<Rightarrow> Inr (merge_dicts entries \<lparr>location = loc, net_usd = ?net\<rparr>)))"
    by (simp add: valuation_def b Let_def foldl_usd)
  have "balances \<noteq> []" using source_balances_keys(2)[OF b] by auto
  then obtain p rest where tots: "?tots = p # rest" by (cases balances) auto
  have net_ne: "?net \<noteq> 0"
  proof
    assume "?net = 0"
    then have "valuation w st = Inl ZeroDivisionError"
      unfolding v tots by (simp add: location_loop_zero)
    with assms show False by simp
  qed
  have "distinct (map fst ?tots)"
    using source_balances_keys(1)[OF b] by (simp add: comp_def case_prod_unfold)
  then have loc: "location_loop w ?net ?tots [] = Inr (map (\<lambda>(name, total_usd).
              (name, \<lparr>usd_value = total_usd,
                      location_percentage_of_net_value = to_percentage w (total_usd / ?net)\<rparr>)) ?tots)"
    using location_loop_nonzero[OF net_ne, of ?tots "[]" w] by simp
  have "valuation w st = Inr (merge_dicts (map (\<lambda>(k, v). (k, \<lparr>usd_value = usd_value v, amount = amount v,
                         percentage_of_net_value = to_percentage w (usd_value v / ?net),
                         tax_free_amount = None, average_buy_value = None,
                         percent_change = None\<rparr>)) (combine_stat_dicts (map snd balances)))
            \<lparr>location = map (\<lambda>(name, total_usd).
              (name, \<lparr>usd_value = total_usd,
                      location_percentage_of_net_value = to_percentage w (total_usd / ?net)\<rparr>)) ?tots,
             net_usd = ?net\<rparr>)"
    unfolding v loc percentage_loop_nonzero[OF net_ne] by simp
  with assms have r: "r = merge_dicts (map (\<lambda>(k, v). (k, \<lparr>usd_value = usd_value v, amount = amount v,
                         percentage_of_net_value = to_percentage w (usd_value v / ?net),
                         tax_free_amount = None, average_buy_value = None,
                         percent_change = None\<rparr>)) (combine_stat_dicts (map snd balances)))
            \<lparr>location = map (\<lambda>(name, total_usd).
              (name, \<lparr>usd_value = total_usd,
                      location_percentage_of_net_value = to_percentage w (total_usd / ?net)\<rparr>)) ?tots,
             net_usd = ?net\<rparr>"
    by simp
  show "net_usd r = ?net" by (simp add: r merge_dicts_def)
  then show "net_usd r \<noteq> 0" using net_ne by simp
  show "location r = map (\<lambda>(name, d).
              (name, \<lparr>usd_value = dict_get_sumof d usd_value,
                      location_percentage_of_net_value =
                        to_percentage w (dict_get_sumof d usd_value / net_usd r)\<rparr>)) balances"
    by (simp add: r merge_dicts_def comp_def case_prod_unfold)
  show "combined r = map (\<lambda>(k, v). (k, \<lparr>usd_value = usd_value v, amount = amount v,
                         percentage_of_net_value = to_percentage w (usd_value v / net_usd r),
                         tax_free_amount = None, average_buy_value = None,
                         percent_change = None\<rparr>)) (combine_stat_dicts (map snd balances))"
    by (simp add: r merge_dicts_def)
qed

lemma valuation_zero_net:
  assumes b: "source_balances w st = Inr balances"
    and z: "(\<Sum>(k, v)\<leftarrow>combine_stat_dicts (map snd balances). usd_value v) = 0"
  shows "valuation w st = Inl ZeroDivisionError"
proof -
  have "balances \<noteq> []" using source_balances_keys(2)[OF b] by auto
  then obtain p rest where
    "map (\<lambda>(k, v). (k, dict_get_sumof v usd_value)) balances = p # rest"
    by (cases balances) auto
  then show ?thesis
    by (simp add: valuation_def b Let_def foldl_usd z location_loop_zero)
qed

subsection \<open>What the overlay leaves alone\<close>

lemma update_same_key_proj:
  "map_of al k = Some e \<Longrightarrow> f e' = f e \<Longrightarrow>
     map (\<lambda>(k, v). f v) (AList.update k e' al) = map (\<lambda>(k, v). f v) al"
  by (induction al) auto

lemma update_same_key_keys:
  "map_of al k = Some e \<Longrightarrow> map fst (AList.update k e' al) = map fst al"
  by (induction al) auto

lemma overlay_entry_frame:
  assumes "overlay_entry asset tfa abv r = (x, r')"
  shows "location r' = location r" and "net_usd r' = net_usd r"
    and "map fst (combined r') = map fst (combined r)"
    and "map (\<lambda>(k, v). usd_value v) (combined r') = map (\<lambda>(k, v). usd_value v) (combined r)"
  using assms
  by (auto simp: overlay_entry_def Let_def AList.update_conv' update_same_key_proj update_same_key_keys
      split: if_splits option.splits sum.splits operand.splits)

lemma tax_overlay_frame:
  assumes "tax_overlay details r = (x, r')"
  shows "location r' = location r \<and> net_usd r' = net_usd r \<and>
    map fst (combined r') = map fst (combined r) \<and>
    map (\<lambda>(k, v). usd_value v) (combined r') = map (\<lambda>(k, v). usd_value v) (combined r)"
  using assms
proof (induction details arbitrary: r)
  case Nil
  then show ?case by simp
next
  case (Cons item details)
  obtain asset tfa abv where item: "item = (asset, tfa, abv)" by (cases item)
  obtain y r1 where step: "overlay_entry asset tfa abv r = (y, r1)" by (cases "overlay_entry asset tfa abv r")
  note fr = overlay_entry_frame[OF step]
  show ?case
  proof (cases y)
    case None
    with Cons.prems step have "tax_overlay details r1 = (x, r')" by (simp add: item)
    from Cons.IH[OF this] fr show ?thesis by simp
  next
    case (Some e)
    with Cons.prems step have "r' = r1" by (simp add: item)
    with fr show ?thesis by simp
  qed
qed

lemma query_balances_valuation:
  "query_balances w st = Inr snap \<Longrightarrow> \<exists>r. valuation w st = Inr r"
  by (auto simp: query_balances_def split: sum.splits)

lemma query_balances_result:
  assumes "query_balances w st = Inr snap" and r: "valuation w st = Inr r"
  shows "location snap = location r \<and> net_usd snap = net_usd r \<and>
    map fst (combined snap) = map fst (combined r) \<and>
    map (\<lambda>(k, v). usd_value v) (combined snap) = map (\<lambda>(k, v). usd_value v) (combined r)"
proof -
  obtain x r' where t: "try_overlay (accountant_details st) r = (x, r')"
    by (cases "try_overlay (accountant_details st) r")
  from assms t have "snap = r'"
    by (auto simp: query_balances_def split: option.splits if_splits)
  moreover from t have "location r' = location r \<and> net_usd r' = net_usd r \<and>
    map fst (combined r') = map fst (combined r) \<and>
    map (\<lambda>(k, v). usd_value v) (combined r') = map (\<lambda>(k, v). usd_value v) (combined r)"
    by (cases "accountant_details st") (auto simp: try_overlay_def dest: tax_overlay_frame)
  ultimately show ?thesis by simp
qed


lemma query_balances_zero_net:
  assumes "source_balances w st = Inr balances"
    and "(\<Sum>(k, v)\<leftarrow>combine_stat_dicts (map snd balances). usd_value v) = 0"
  shows "query_balances w st = Inl ZeroDivisionError"
  by (simp add: query_balances_def valuation_zero_net[OF assms])

subsection \<open>The worked inputs, evaluated\<close>

lemma query_balances_portfolio:
  "query_balances demo_world portfolio = Inr portfolio_snapshot"
  by code_simp

lemma new_exchange_unsupported:
  "name \<notin> {''kraken'', ''poloniex'', ''bittrex'', ''binance''} \<Longrightarrow>
     new_exchange w name api_key api_secret = None"
  by (simp add: new_exchange_def)

subsection \<open>Permutations of the sources\<close>

lemma mset_concat_cong:
  assumes "mset xss = mset yss"
  shows "mset (concat xss) = mset (concat yss)"
proof -
  have "mset (concat xss) = sum_mset (image_mset mset (mset xss))"
    by (simp add: mset_concat flip: sum_mset_sum_list)
  also have "\<dots> = sum_mset (image_mset mset (mset yss))"
    by (simp add: assms)
  also have "\<dots> = mset (concat yss)"
    by (simp add: mset_concat flip: sum_mset_sum_list)
  finally show ?thesis .
qed

lemma sum_list_selected_cong:
  assumes "mset E = mset E'"
  shows "sum_list [f b. (k, b) \<leftarrow> E, k = a] = (sum_list [f b. (k, b) \<leftarrow> E', k = a] :: rat)"
proof -
  have "mset (map (\<lambda>(k, b). f b) (filter (\<lambda>(k, b). k = a) E))
      = mset (map (\<lambda>(k, b). f b) (filter (\<lambda>(k, b). k = a) E'))"
    by (simp add: assms)
  then have "sum_mset (mset (map (\<lambda>(k, b). f b) (filter (\<lambda>(k, b). k = a) E)))
      = sum_mset (mset (map (\<lambda>(k, b). f b) (filter (\<lambda>(k, b). k = a) E')))"
    by (rule arg_cong)
  then show ?thesis
    by (simp only: comp_list sum_mset_sum_list)
qed

lemma combine_stat_dicts_keys:
  "distinct (map fst (combine_stat_dicts ds))"
  "set (map fst (combine_stat_dicts ds)) = fst ` set (concat ds)"
  by (simp_all add: combine_stat_dicts_def Let_def comp_def)

subsection \<open>What the overlay writes\<close>

lemma overlay_entry_other:
  assumes "overlay_entry b t v r = (x, r')" and "a \<noteq> b"
  shows "map_of (combined r') a = map_of (combined r) a"
  using assms
  by (auto simp: overlay_entry_def Let_def AList.update_conv' fval_truediv_def
      split: if_splits option.splits operand.splits)

lemma tax_overlay_other:
  assumes "tax_overlay ds r = (x, r')" and "a \<notin> fst ` set ds"
  shows "map_of (combined r') a = map_of (combined r) a"
  using assms
proof (induction ds arbitrary: r)
  case Nil
  then show ?case by simp
next
  case (Cons item ds)
  obtain b t v where item: "item = (b, t, v)" by (cases item)
  obtain y r1 where step: "overlay_entry b t v r = (y, r1)" by (cases "overlay_entry b t v r")
  from Cons.prems have ne: "a \<noteq> b" and rest: "a \<notin> fst ` set ds" by (auto simp: item)
  note o = overlay_entry_other[OF step ne]
  show ?case
  proof (cases y)
    case None
    with Cons.prems step have "tax_overlay ds r1 = (x, r')" by (simp add: item)
    from Cons.IH[OF this rest] o show ?thesis by simp
  next
    case (Some e)
    with Cons.prems step have "r' = r1" by (simp add: item)
    with o show ?thesis by simp
  qed
qed

lemma overlay_entry_annotates:
  assumes "overlay_entry a t v r = (None, r')" and "map_of (combined r') a = Some e"
  shows "annotated t v e"
  using assms
  by (auto simp: overlay_entry_def Let_def AList.update_conv' fval_truediv_def annotated_def
      split: if_splits option.splits operand.splits)

lemma tax_overlay_annotates:
  assumes "tax_overlay ds r = (None, r')" and "distinct (map fst ds)"
    and "(a, t, v) \<in> set ds" and "map_of (combined r') a = Some e"
  shows "annotated t v e"
  using assms
proof (induction ds arbitrary: r)
  case Nil
  then show ?case by simp
next
  case (Cons item ds)
  obtain b tb vb where item: "item = (b, tb, vb)" by (cases item)
  obtain y r1 where step: "overlay_entry b tb vb r = (y, r1)" by (cases "overlay_entry b tb vb r")
  with Cons.prems(1) have y: "y = None" and rest: "tax_overlay ds r1 = (None, r')"
    by (auto simp: item split: option.splits)
  show ?case
  proof (cases "(a, t, v) = item")
    case True
    then have eq: "a = b" "t = tb" "v = vb" by (simp_all add: item)
    from Cons.prems(2) have "a \<notin> fst ` set ds" by (auto simp: item eq)
    from tax_overlay_other[OF rest this] Cons.prems(4) have "map_of (combined r1) a = Some e" by simp
    with step y show ?thesis unfolding eq by (auto intro: overlay_entry_annotates)
  next
    case False
    with Cons.prems(3) have "(a, t, v) \<in> set ds" by simp
    moreover from Cons.prems(2) have "distinct (map fst ds)" by simp
    ultimately show ?thesis using Cons.IH[OF rest] Cons.prems(4) by simp
  qed
qed

lemma overlay_entry_attribute_error:
  "overlay_entry a t v r = (Some AttributeError, r') \<Longrightarrow> v = NotNumber AttributeError"
  by (auto simp: overlay_entry_def Let_def fval_truediv_def
      split: if_splits option.splits operand.splits)

lemma tax_overlay_failure_point:
  assumes "tax_overlay ds r = (Some e, r')"
  shows "\<exists>before a t v after r1. ds = before @ (a, t, v) # after \<and>
           tax_overlay before r = (None, r1) \<and> overlay_entry a t v r1 = (Some e, r')"
  using assms
proof (induction ds arbitrary: r)
  case Nil
  then show ?case by simp
next
  case (Cons item ds)
  obtain b tb vb where item: "item = (b, tb, vb)" by (cases item)
  obtain y r1 where step: "overlay_entry b tb vb r = (y, r1)" by (cases "overlay_entry b tb vb r")
  show ?case
  proof (cases y)
    case None
    with Cons.prems step have "tax_overlay ds r1 = (Some e, r')" by (simp add: item)
    from Cons.IH[OF this] obtain before a t v after r2 where
      d: "ds = before @ (a, t, v) # after" and p: "tax_overlay before r1 = (None, r2)"
      and f: "overlay_entry a t v r2 = (Some e, r')" by blast
    have "item # ds = (item # before) @ (a, t, v) # after" by (simp add: d)
    moreover have "tax_overlay (item # before) r = (None, r2)"
      using step None p by (simp add: item)
    ultimately show ?thesis using f by blast
  next
    case (Some e')
    with Cons.prems step have "e' = e" "r1 = r'" by (simp_all add: item)
    with step Some have "overlay_entry b tb vb r = (Some e, r')" by simp
    moreover have "item # ds = [] @ (b, tb, vb) # ds" by (simp add: item)
    moreover have "tax_overlay [] r = (None, r)" by simp
    ultimately show ?thesis by blast
  qed
qed

lemma tax_overlay_attribute_error:
  assumes "tax_overlay ds r = (Some AttributeError, r')"
  shows "\<exists>(a, t, v) \<in> set ds. v = NotNumber AttributeError"
proof -
  from tax_overlay_failure_point[OF assms] obtain before a t v after r1 where
    "ds = before @ (a, t, v) # after" "overlay_entry a t v r1 = (Some AttributeError, r')"
    by blast
  then show ?thesis by (auto dest: overlay_entry_attribute_error)
qed

subsection \<open>Further worked inputs, evaluated\<close>

lemma valuation_unpriced: "valuation demo_world unpriced = Inr portfolio_valuation"
  by code_simp

lemma try_overlay_unpriced:
  "try_overlay (accountant_details unpriced) portfolio_valuation =
     (Some AttributeError, unpriced_snapshot)"
  by code_simp

lemma query_balances_dust: "query_balances demo_world dust = Inl ZeroDivisionError"
  by code_simp

section \<open>Results\<close>

subsection \<open>The snapshot of \<open>query_balances\<close>\<close>

text \<open>
  Claim C1. Whenever \<open>query_balances\<close> returns a snapshot, its \<open>net_usd\<close> is the sum of
  \<open>usd_value\<close> over the combined per-asset entries of that snapshot.
\<close>

theorem net_usd_is_sum_of_combined:
  assumes "query_balances w st = Inr snap"
  shows "net_usd snap = (\<Sum>(k, entry)\<leftarrow>combined snap. usd_value entry)"
proof -
  from query_balances_valuation[OF assms] obtain r where r: "valuation w st = Inr r" ..
  from valuation_sources[OF r] obtain balances where b: "source_balances w st = Inr balances" ..
  note q = query_balances_result[OF assms r]
  have "map (\<lambda>(k, v). usd_value v) (combined r)
      = map (\<lambda>(k, v). usd_value v) (combine_stat_dicts (map snd balances))"
    by (subst valuation_result(4)[OF b r]) (simp add: comp_def case_prod_unfold)
  with q valuation_result(1)[OF b r] show ?thesis by simp
qed

text \<open>
  The theorem at the example of section 8 of the spec: 10000 + 500 = 10500.
\<close>

theorem net_usd_is_sum_of_combined_witness:
  "query_balances demo_world portfolio = Inr portfolio_snapshot \<and>
   net_usd portfolio_snapshot = (\<Sum>(k, entry)\<leftarrow>combined portfolio_snapshot. usd_value entry) \<and>
   net_usd portfolio_snapshot = 10500"
  using net_usd_is_sum_of_combined[OF query_balances_portfolio] query_balances_portfolio
  by (simp add: portfolio_snapshot_def)

text \<open>
  Claim C2. Whenever \<open>query_balances\<close> returns a snapshot, the \<open>usd_value\<close> entries of its
  location breakdown, one per source, sum to its \<open>net_usd\<close>.
\<close>

theorem locations_sum_to_net_usd:
  assumes "query_balances w st = Inr snap"
  shows "(\<Sum>(name, entry)\<leftarrow>location snap. usd_value entry) = net_usd snap"
proof -
  from query_balances_valuation[OF assms] obtain r where r: "valuation w st = Inr r" ..
  from valuation_sources[OF r] obtain balances where b: "source_balances w st = Inr balances" ..
  note q = query_balances_result[OF assms r]
  have "(\<Sum>(name, entry)\<leftarrow>location r. usd_value entry)
      = (\<Sum>d\<leftarrow>map snd balances. dict_get_sumof d usd_value)"
    by (subst valuation_result(3)[OF b r]) (simp add: comp_def case_prod_unfold)
  with q valuation_result(1)[OF b r] show ?thesis by (simp add: combine_stat_dicts_usd)
qed

text \<open>
  The theorem at the same example: kraken 10000, blockchain 0, banks 500.
\<close>

theorem locations_sum_to_net_usd_witness:
  "query_balances demo_world portfolio = Inr portfolio_snapshot \<and>
   (\<Sum>(name, entry)\<leftarrow>location portfolio_snapshot. usd_value entry) = net_usd portfolio_snapshot \<and>
   map (\<lambda>(name, entry). usd_value entry) (location portfolio_snapshot) = [10000, 0, 500]"
  using locations_sum_to_net_usd[OF query_balances_portfolio] query_balances_portfolio
  by (simp add: portfolio_snapshot_def)

text \<open>
  Claim C9. Whenever \<open>query_balances\<close> returns a snapshot, whatever exchanges are
  connected, its location breakdown has an entry for \<open>blockchain\<close> and one for \<open>banks\<close>.
\<close>

theorem location_has_blockchain_and_banks:
  assumes "query_balances w st = Inr snap"
  shows "''blockchain'' \<in> fst ` set (location snap) \<and> ''banks'' \<in> fst ` set (location snap)"
proof -
  from query_balances_valuation[OF assms] obtain r where r: "valuation w st = Inr r" ..
  from valuation_sources[OF r] obtain balances where b: "source_balances w st = Inr balances" ..
  note q = query_balances_result[OF assms r]
  have "map fst (location r) = map fst balances"
    by (subst valuation_result(3)[OF b r]) (simp add: comp_def case_prod_unfold)
  then have "fst ` set (location r) = fst ` set balances"
    by (metis set_map)
  with source_balances_keys(2,3)[OF b] q show ?thesis by simp
qed

text \<open>
  The theorem at the same example, with one exchange connected.
\<close>

theorem location_has_blockchain_and_banks_witness:
  "query_balances demo_world portfolio = Inr portfolio_snapshot \<and>
   ''blockchain'' \<in> fst ` set (location portfolio_snapshot) \<and>
   ''banks'' \<in> fst ` set (location portfolio_snapshot) \<and>
   map fst (location portfolio_snapshot) = [''kraken'', ''blockchain'', ''banks'']"
  using location_has_blockchain_and_banks[OF query_balances_portfolio] query_balances_portfolio
  by (simp add: portfolio_snapshot_def)

text \<open>
  Claim C8, at the input it names: nothing connected, no blockchain holdings, no fiat.
  Both sources are empty, \<open>net_usd\<close> is zero, and line 203 divides the total of
  \<open>blockchain\<close> by it: the call raises instead of returning a snapshot. The same
  happens whenever \<open>net_usd\<close> is zero (\<open>query_balances_zero_net\<close>).
\<close>

theorem query_balances_empty_portfolio:
  "source_balances demo_world fresh = Inr [(''blockchain'', []), (''banks'', [])] \<and>
   query_balances demo_world fresh = Inl ZeroDivisionError"
  by code_simp

subsection \<open>Registering an exchange\<close>

text \<open>
  Claim C4. When \<open>setup_exchange\<close> gets as far as building the candidate client
  (no credential stored under the name, the secret file exists, the name is one of
  the four) and \<open>validate_api_key()\<close> of the candidate reports failure with
  \<open>message\<close>, the call returns \<open>(False, message)\<close> and the whole object is as before:
  the credentials in memory and on disk, the list of connected exchanges and the
  four client handles.
\<close>

theorem setup_exchange_validation_failure:
  assumes "name @ ''_api_key'' \<notin> set (map fst (secret_data st))"
    and "secret_file st \<noteq> None"
    and "new_exchange w name api_key api_secret = Some exchange"
    and "validate_api_key exchange = (False, message)"
  shows "setup_exchange w st name api_key api_secret = ((False, message), st)"
  using assms by (auto simp add: setup_exchange_def)

text \<open>
  The theorem for a bittrex key that the client rejects.
\<close>

theorem setup_exchange_validation_failure_witness:
  "''bittrex'' @ ''_api_key'' \<notin> set (map fst (secret_data installed)) \<and>
   secret_file installed \<noteq> None \<and>
   new_exchange demo_world ''bittrex'' ''k2'' ''s2'' = Some (demo_client ''k2'' ''s2'') \<and>
   validate_api_key (demo_client ''k2'' ''s2'') = (False, ''Invalid API key'') \<and>
   setup_exchange demo_world installed ''bittrex'' ''k2'' ''s2'' =
     ((False, ''Invalid API key''), installed)"
proof -
  have 1: "''bittrex'' @ ''_api_key'' \<notin> set (map fst (secret_data installed))"
    by (simp add: installed_def fresh_def)
  have 2: "secret_file installed \<noteq> None"
    by (simp add: installed_def fresh_def)
  have 3: "new_exchange demo_world ''bittrex'' ''k2'' ''s2'' = Some (demo_client ''k2'' ''s2'')"
    by (simp add: new_exchange_def demo_world_def)
  have 4: "validate_api_key (demo_client ''k2'' ''s2'') = (False, ''Invalid API key'')"
    by (simp add: demo_client_def)
  from setup_exchange_validation_failure[OF 1 2 3 4] 1 2 3 4 show ?thesis by simp
qed

text \<open>
  Claim C5 as stated fails where the secret file is missing: the check of line 264
  comes before the branch on the name, and the message is that of line 266.
\<close>

theorem setup_exchange_unsupported_counterexample:
  "''unknown'' \<notin> {''kraken'', ''poloniex'', ''bittrex'', ''binance''} \<and>
   fst (setup_exchange demo_world fresh ''unknown'' ''k'' ''s'') =
     (False, ''The secret file can not be found'') \<and>
   fst (setup_exchange demo_world fresh ''unknown'' ''k'' ''s'') \<noteq>
     (False, ''Attempted to register unsupported exchange unknown'')"
  by (simp add: setup_exchange_def fresh_def)

text \<open>
  Claim C5, amended. For a name outside the four, \<open>setup_exchange\<close> returns \<open>False\<close>
  and leaves the whole object, the list of connected exchanges included, as it was.
  The message is that of the first check to fire: a credential stored under the name
  (line 262), a missing secret file (line 266), and only then the unsupported name
  (line 297).
\<close>

theorem setup_exchange_unsupported:
  assumes "name \<notin> {''kraken'', ''poloniex'', ''bittrex'', ''binance''}"
  shows "setup_exchange w st name api_key api_secret =
    ((False,
      if name @ ''_api_key'' \<in> set (map fst (secret_data st))
      then ''Exchange {} is already registered''
      else if secret_file st = None then ''The secret file can not be found''
      else ''Attempted to register unsupported exchange '' @ name), st)"
  by (simp add: setup_exchange_def new_exchange_unsupported[OF assms])

text \<open>
  The theorem for the name \<open>unknown\<close> with the secret file in place.
\<close>

theorem setup_exchange_unsupported_witness:
  "''unknown'' \<notin> {''kraken'', ''poloniex'', ''bittrex'', ''binance''} \<and>
   setup_exchange demo_world installed ''unknown'' ''k'' ''s'' =
     ((False, ''Attempted to register unsupported exchange unknown''), installed)"
proof -
  have 1: "''unknown'' \<notin> {''kraken'', ''poloniex'', ''bittrex'', ''binance''}" by simp
  from setup_exchange_unsupported[OF 1, of demo_world installed "''k''" "''s''"] 1
  show ?thesis by (simp add: installed_def fresh_def)
qed

subsection \<open>The main loop\<close>

text \<open>
  Claim C7, at an object configured with \<open>sleep_secs = 20\<close> that holds a kraken and a
  binance client. One pass of the loop calls \<open>main_logic\<close> of kraken only and then
  sleeps 10, the literal of line 159, not the configured 20.
\<close>

theorem main_loop_ignores_sleep_secs:
  "sleep_secs (portfolio\<lparr>binance := Some (demo_client ''k1'' ''s1'')\<rparr>) = 20 \<and>
   main_loop [False, True] (portfolio\<lparr>binance := Some (demo_client ''k1'' ''s1'')\<rparr>) =
     [Main_logic ''kraken'', Sleep 10]"
  by (simp add: main_loop_cycle_def portfolio_def)

subsection \<open>Order of the sources\<close>

text \<open>
  Claim C3. The combined per-asset totals do not depend on the order of the sources: two
  lists of source dictionaries that are permutations of each other give the same
  dictionary of totals, as a mapping from asset to entry and as a set of items. This
  holds for the empty list as well.
\<close>

theorem combine_stat_dicts_permutation:
  assumes "mset sources' = mset sources"
  shows "map_of (combine_stat_dicts sources') = map_of (combine_stat_dicts sources) \<and>
         set (combine_stat_dicts sources') = set (combine_stat_dicts sources)"
proof -
  let ?E = "concat sources" and ?E' = "concat sources'"
  have m: "mset ?E' = mset ?E" using assms by (rule mset_concat_cong)
  then have s: "set ?E' = set ?E" by (rule mset_eq_setD)
  let ?entry = "\<lambda>E a. (a, \<lparr>usd_value = sum_list [usd_value b. (k, b) \<leftarrow> E, k = a],
                          amount = sum_list [amount b. (k, b) \<leftarrow> E, k = a]\<rparr>)"
  have e: "?entry ?E' = ?entry ?E"
    by (rule ext) (simp only: sum_list_selected_cong[OF m])
  have c: "combine_stat_dicts sources = map (?entry ?E) (remdups (map fst ?E))"
    "combine_stat_dicts sources' = map (?entry ?E') (remdups (map fst ?E'))"
    by (simp_all add: combine_stat_dicts_def Let_def)
  have "set (combine_stat_dicts sources') = set (combine_stat_dicts sources)"
    unfolding c e by (simp only: set_map set_remdups s)
  moreover have "map_of (combine_stat_dicts sources') = map_of (combine_stat_dicts sources)"
    unfolding c e by (simp only: map_of_map_restrict set_remdups set_map s)
  ultimately show ?thesis by simp
qed

text \<open>The theorem for two sources that share bitcoin, in both orders.\<close>

theorem combine_stat_dicts_permutation_witness:
  "mset [[(''USD'', \<lparr>usd_value = 500, amount = 500\<rparr>), (''BTC'', \<lparr>usd_value = 5000, amount = 1 / 2\<rparr>)],
         [(''BTC'', \<lparr>usd_value = 10000, amount = 1\<rparr>)]] =
   mset [[(''BTC'', \<lparr>usd_value = 10000, amount = 1\<rparr>)],
         [(''USD'', \<lparr>usd_value = 500, amount = 500\<rparr>), (''BTC'', \<lparr>usd_value = 5000, amount = 1 / 2\<rparr>)]] \<and>
   map_of (combine_stat_dicts
        [[(''USD'', \<lparr>usd_value = 500, amount = 500\<rparr>), (''BTC'', \<lparr>usd_value = 5000, amount = 1 / 2\<rparr>)],
         [(''BTC'', \<lparr>usd_value = 10000, amount = 1\<rparr>)]]) =
   map_of (combine_stat_dicts
        [[(''BTC'', \<lparr>usd_value = 10000, amount = 1\<rparr>)],
         [(''USD'', \<lparr>usd_value = 500, amount = 500\<rparr>), (''BTC'', \<lparr>usd_value = 5000, amount = 1 / 2\<rparr>)]]) \<and>
   map_of (combine_stat_dicts
        [[(''BTC'', \<lparr>usd_value = 10000, amount = 1\<rparr>)],
         [(''USD'', \<lparr>usd_value = 500, amount = 500\<rparr>), (''BTC'', \<lparr>usd_value = 5000, amount = 1 / 2\<rparr>)]])
      ''BTC'' = Some \<lparr>usd_value = 15000, amount = 3 / 2\<rparr>"
proof -
  let ?a = "[(''USD'', \<lparr>usd_value = 500, amount = 500\<rparr>), (''BTC'', \<lparr>usd_value = 5000, amount = 1 / 2\<rparr>)]"
  let ?b = "[(''BTC'', \<lparr>usd_value = 10000, amount = 1\<rparr>)]"
  have p: "mset [?a, ?b] = mset [?b, ?a]" by (simp add: add.commute)
  have v: "map_of (combine_stat_dicts [?b, ?a]) ''BTC'' = Some \<lparr>usd_value = 15000, amount = 3 / 2\<rparr>"
    by (simp add: combine_stat_dicts_def)
  from combine_stat_dicts_permutation[OF p] p v show ?thesis by simp
qed

subsection \<open>The tax overlay\<close>

text \<open>
  Claim C6 as stated fails for an average buy value of zero: line 231 stores the string
  \<open>'INF'\<close>, not \<open>"undefined"\<close>.
\<close>

theorem overlay_percent_change_counterexample:
  "accountant_details gift = Some [(''BTC'', Number 1, Number 0)] \<and>
   query_balances demo_world gift = Inr gift_snapshot \<and>
   map_option percent_change (map_of (combined gift_snapshot) ''BTC'') = Some (Some (Text ''INF'')) \<and>
   Text ''INF'' \<noteq> Text ''undefined''"
proof -
  have "accountant_details gift = Some [(''BTC'', Number 1, Number 0)]"
    by (simp add: gift_def)
  moreover have "query_balances demo_world gift = Inr gift_snapshot"
    by code_simp
  moreover have "map_option percent_change (map_of (combined gift_snapshot) ''BTC'')
      = Some (Some (Text ''INF''))"
    by (simp add: gift_snapshot_def)
  ultimately show ?thesis by simp
qed

text \<open>
  Claim C6, amended. Let \<open>query_balances\<close> return a snapshot, and let no value of
  \<open>details\<close> raise \<open>AttributeError\<close> in the arithmetic (so that the loop is not cut
  short). Then every asset that is in \<open>details\<close> and in the snapshot carries its
  \<open>tax_free_amount\<close> and \<open>average_buy_value\<close>, the latter is a number, and its
  \<open>percent_change\<close> is the string \<open>'INF'\<close> when that number is zero and
  \<open>((usd_value / amount - average_buy_value) / average_buy_value) * 100\<close> otherwise. An
  asset whose amount is zero makes line 225 raise, and then no snapshot is returned
  (\<open>query_balances_dust\<close>).
\<close>

theorem overlay_percent_change:
  assumes "query_balances w st = Inr snap"
    and "accountant_details st = Some details"
    and "distinct (map fst details)"
    and "NotNumber AttributeError \<notin> set (map (\<lambda>(a, t, v). v) details)"
    and "(asset, tfa, abv) \<in> set details"
    and "map_of (combined snap) asset = Some entry"
  shows "tax_free_amount entry = Some tfa \<and> average_buy_value entry = Some abv \<and>
    (\<exists>average. abv = Number average \<and>
       percent_change entry =
         Some (if average = 0 then Text ''INF''
               else Change (((usd_value entry / amount entry - average) / average) * 100)))"
proof -
  from assms(1) obtain r where r: "valuation w st = Inr r"
    by (auto simp: query_balances_def split: sum.splits)
  obtain x r' where t: "tax_overlay details r = (x, r')" by (cases "tax_overlay details r")
  have "x = None"
  proof (cases x)
    case (Some e)
    with assms(1,2) r t have "e = AttributeError"
      by (auto simp: query_balances_def try_overlay_def split: if_splits)
    with Some t tax_overlay_attribute_error[of details r r'] assms(4) show ?thesis
      by (auto simp: image_iff)
  qed simp
  with assms(1,2) r t have "tax_overlay details r = (None, snap)"
    by (auto simp: query_balances_def try_overlay_def)
  from tax_overlay_annotates[OF this assms(3,5,6)] show ?thesis
    by (auto simp: annotated_def split: operand.splits)
qed

text \<open>
  The theorem at the example of section 8 of the spec: usd_value 10000, amount 1 and
  average buy value 8000 give 25.
\<close>

theorem overlay_percent_change_witness:
  "query_balances demo_world portfolio = Inr portfolio_snapshot \<and>
   accountant_details portfolio = Some [(''BTC'', Number 1, Number 8000)] \<and>
   distinct (map fst [(''BTC'', Number 1, Number 8000)]) \<and>
   NotNumber AttributeError \<notin> set (map (\<lambda>(a, t, v). v) [(''BTC'', Number 1, Number 8000)]) \<and>
   map_of (combined portfolio_snapshot) ''BTC'' =
     Some \<lparr>usd_value = 10000, amount = 1, percentage_of_net_value = 2000 / 21,
           tax_free_amount = Some (Number 1), average_buy_value = Some (Number 8000),
           percent_change = Some (Change 25)\<rparr> \<and>
   (((10000 / 1 - 8000) / 8000) * 100 :: rat) = 25"
proof -
  have 2: "accountant_details portfolio = Some [(''BTC'', Number 1, Number 8000)]"
    by (simp add: portfolio_def)
  have 3: "distinct (map fst [(''BTC'', Number 1, Number (8000::rat))])" by simp
  have 4: "NotNumber AttributeError \<notin> set (map (\<lambda>(a, t, v). v) [(''BTC'', Number 1, Number 8000)])"
    by simp
  have 5: "(''BTC'', Number 1, Number 8000) \<in> set [(''BTC'', Number 1, Number 8000)]" by simp
  have 6: "map_of (combined portfolio_snapshot) ''BTC'' =
     Some \<lparr>usd_value = 10000, amount = 1, percentage_of_net_value = 2000 / 21,
           tax_free_amount = Some (Number 1), average_buy_value = Some (Number 8000),
           percent_change = Some (Change 25)\<rparr>"
    by (simp add: portfolio_snapshot_def)
  from overlay_percent_change[OF query_balances_portfolio 2 3 4 5 6] query_balances_portfolio 2 4 6
  show ?thesis by simp
qed

text \<open>
  Claim C10. When the body of the \<open>try\<close> raises \<open>AttributeError\<close>, \<open>query_balances\<close>
  returns the snapshot as the body left it. Either the accountant has no \<open>details\<close>, and
  the snapshot has no overlay at all, or the exception was raised at some item of
  \<open>details\<close>: then the items before it were processed without exception, and (the keys
  of \<open>details\<close> being distinct, as in a dictionary) every asset among them that is in
  the snapshot is returned with its \<open>tax_free_amount\<close>, \<open>average_buy_value\<close> and
  \<open>percent_change\<close>.
\<close>

theorem attribute_error_keeps_annotations:
  assumes "valuation w st = Inr result_dict"
    and "try_overlay (accountant_details st) result_dict = (Some AttributeError, snap)"
  shows "query_balances w st = Inr snap \<and>
    (case accountant_details st of
       None \<Rightarrow> snap = result_dict
     | Some details \<Rightarrow>
         (\<exists>before asset tfa abv after dict1.
            details = before @ (asset, tfa, abv) # after \<and>
            tax_overlay before result_dict = (None, dict1) \<and>
            overlay_entry asset tfa abv dict1 = (Some AttributeError, snap) \<and>
            (distinct (map fst details) \<longrightarrow>
               (\<forall>(b, tb, vb) \<in> set before. \<forall>e.
                  map_of (combined snap) b = Some e \<longrightarrow> annotated tb vb e))))"
proof -
  have q: "query_balances w st = Inr snap"
    using assms by (simp add: query_balances_def)
  show ?thesis
  proof (cases "accountant_details st")
    case None
    with assms(2) q show ?thesis by (simp add: try_overlay_def)
  next
    case (Some details)
    with assms(2) have "tax_overlay details result_dict = (Some AttributeError, snap)"
      by (simp add: try_overlay_def)
    from tax_overlay_failure_point[OF this] obtain before asset tfa abv after dict1 where
      d: "details = before @ (asset, tfa, abv) # after"
      and p: "tax_overlay before result_dict = (None, dict1)"
      and f: "overlay_entry asset tfa abv dict1 = (Some AttributeError, snap)" by blast
    have "annotated tb vb e"
      if dist: "distinct (map fst details)" and m: "(b, tb, vb) \<in> set before"
        and l: "map_of (combined snap) b = Some e" for b tb vb e
    proof -
      from dist m have "b \<noteq> asset" by (auto simp: d rev_image_eqI)
      from overlay_entry_other[OF f this] l have "map_of (combined dict1) b = Some e" by simp
      moreover from dist have "distinct (map fst before)" by (simp add: d)
      ultimately show ?thesis using tax_overlay_annotates[OF p _ m] by simp
    qed
    then have "distinct (map fst details) \<longrightarrow>
               (\<forall>(b, tb, vb) \<in> set before. \<forall>e.
                  map_of (combined snap) b = Some e \<longrightarrow> annotated tb vb e)"
      by blast
    with d p f q Some show ?thesis by (simp del: split_paired_All) blast
  qed
qed

text \<open>
  The theorem where the second of three items raises: bitcoin is returned with its
  overlay, \<open>USD\<close> with the two values stored by lines 222 and 223 and no
  \<open>percent_change\<close>.
\<close>

theorem attribute_error_keeps_annotations_witness:
  "valuation demo_world unpriced = Inr portfolio_valuation \<and>
   try_overlay (accountant_details unpriced) portfolio_valuation =
     (Some AttributeError, unpriced_snapshot) \<and>
   accountant_details unpriced =
     Some ([(''BTC'', Number 1, Number 8000)] @
           (''USD'', Number 500, NotNumber AttributeError) # [(''ETH'', Number 2, Number 300)]) \<and>
   distinct (map fst [(''BTC'', Number 1, Number 8000),
                      (''USD'', Number 500, NotNumber AttributeError),
                      (''ETH'', Number 2, Number 300)]) \<and>
   query_balances demo_world unpriced = Inr unpriced_snapshot \<and>
   map_of (combined unpriced_snapshot) ''BTC'' =
     Some \<lparr>usd_value = 10000, amount = 1, percentage_of_net_value = 2000 / 21,
           tax_free_amount = Some (Number 1), average_buy_value = Some (Number 8000),
           percent_change = Some (Change 25)\<rparr> \<and>
   annotated (Number 1) (Number 8000)
     \<lparr>usd_value = 10000, amount = 1, percentage_of_net_value = 2000 / 21 :: rat,
      tax_free_amount = Some (Number 1), average_buy_value = Some (Number 8000),
      percent_change = Some (Change 25)\<rparr> \<and>
   map_option tax_free_amount (map_of (combined unpriced_snapshot) ''USD'') = Some (Some (Number 500)) \<and>
   map_option percent_change (map_of (combined unpriced_snapshot) ''USD'') = Some None"
proof -
  have "accountant_details unpriced =
     Some ([(''BTC'', Number 1, Number 8000)] @
           (''USD'', Number 500, NotNumber AttributeError) # [(''ETH'', Number 2, Number 300)])"
    by (simp add: unpriced_def)
  moreover have "map_of (combined unpriced_snapshot) ''BTC'' =
     Some \<lparr>usd_value = 10000, amount = 1, percentage_of_net_value = 2000 / 21,
           tax_free_amount = Some (Number 1), average_buy_value = Some (Number 8000),
           percent_change = Some (Change 25)\<rparr>"
    and "map_option tax_free_amount (map_of (combined unpriced_snapshot) ''USD'') = Some (Some (Number 500))"
    and "map_option percent_change (map_of (combined unpriced_snapshot) ''USD'') = Some None"
    by (simp_all add: unpriced_snapshot_def)
  moreover have "annotated (Number 1) (Number 8000)
     \<lparr>usd_value = 10000, amount = 1, percentage_of_net_value = 2000 / 21 :: rat,
      tax_free_amount = Some (Number 1), average_buy_value = Some (Number 8000),
      percent_change = Some (Change 25)\<rparr>"
    by (simp add: annotated_def)
  ultimately show ?thesis
    using attribute_error_keeps_annotations[OF valuation_unpriced try_overlay_unpriced]
      valuation_unpriced try_overlay_unpriced
    by simp
qed

end
